theory Spec2Isabelle
  imports Main
begin

section \<open>Values, exceptions and outcomes\<close>

text \<open>
  The values a guest function can return and a signal can emit: \<open>None\<close>, integers
  (unbounded, as in Python), strings and tuples. On these Python's \<open>==\<close> is structural
  equality.
\<close>

datatype pyvalue = PyNone | PyInt int | PyStr string | PyTuple "pyvalue list"

text \<open>
  The exceptions the module raises. The first five are the classes that
  \<open>qtrio/__init__.py\<close> imports from \<open>qtrio._exceptions\<close>; \<open>ReturnCodeError\<close> is
  built from the return code (\<open>qtrio.ReturnCodeError(return_code)\<close>). The others are
  Python's \<open>AttributeError\<close> (an attribute read on \<open>None\<close> or on an object without
  it), the two exceptions of a memory channel, and any exception of the application's
  own, told apart by a text.
\<close>

datatype exn =
    QTrioException
  | NoOutcomesError
  | RegisterEventTypeError
  | ReturnCodeError int
  | RunnerTimedOutError
  | AttributeError
  | ClosedResourceError
  | EndOfChannel
  | UserException string

text \<open>
  \<open>outcome.Outcome\<close>: either \<open>outcome.Value(value)\<close> or \<open>outcome.Error(error)\<close>.
  Its \<open>unwrap()\<close> returns the value or raises the error.
\<close>

datatype outcome = Value pyvalue | Error exn

fun outcome_unwrap :: "outcome \<Rightarrow> exn + pyvalue" where
  "outcome_unwrap (Value v) = Inr v"
| "outcome_unwrap (Error e) = Inl e"

subsection \<open>\<open>Outcomes\<close>\<close>

text \<open>
  The frozen attrs class \<open>Outcomes\<close>: two optional outcomes, both \<open>None\<close> by default.
\<close>

record Outcomes =
  qt :: "outcome option"
  trio :: "outcome option"

definition Outcomes_init :: Outcomes where
  "Outcomes_init = \<lparr>qt = None, trio = None\<rparr>"

text \<open>
  \<open>Outcomes.unwrap\<close>. The Trio outcome is unwrapped first; when it is a value and the Qt
  outcome is set, the Qt outcome is unwrapped for its error only, and the Trio value is
  returned. With no Trio outcome the Qt outcome is unwrapped; with neither,
  \<open>NoOutcomesError\<close> is raised.
\<close>

definition unwrap :: "Outcomes \<Rightarrow> exn + pyvalue" where
  "unwrap self =
     (case trio self of
        Some t \<Rightarrow>
          (case outcome_unwrap t of
             Inl e \<Rightarrow> Inl e
           | Inr result \<Rightarrow>
               (case qt self of
                  Some q \<Rightarrow>
                    (case outcome_unwrap q of
                       Inl e \<Rightarrow> Inl e
                     | Inr _ \<Rightarrow> Inr result)
                | None \<Rightarrow> Inr result))
      | None \<Rightarrow>
          (case qt self of
             Some q \<Rightarrow> outcome_unwrap q
           | None \<Rightarrow> Inl NoOutcomesError))"

subsection \<open>\<open>outcome_from_application_return_code\<close>\<close>

definition outcome_from_application_return_code :: "int \<Rightarrow> outcome" where
  "outcome_from_application_return_code return_code =
     (if return_code = 0 then Value (PyInt return_code)
      else Error (ReturnCodeError return_code))"

section \<open>Reenter events\<close>

text \<open>
  A \<open>QtCore.QEvent\<close> as the module uses it: its type, and the attribute \<open>fn\<close> that
  \<open>create_reenter_event\<close> adds (an event of the host's own has none). The carried
  callable takes no argument; it acts on the state \<open>'w\<close> of the program and either
  returns or raises.
\<close>

record 'w QEvent =
  event_type :: int
  fn :: "('w \<Rightarrow> exn option \<times> 'w) option"

text \<open>
  Module initialisation: \<open>QtCore.QEvent.registerEventType()\<close> returns the hint, or -1
  when none is left, and then the import fails with \<open>RegisterEventTypeError\<close>.
\<close>

definition REENTER_EVENT :: "int \<Rightarrow> exn + int" where
  "REENTER_EVENT REENTER_EVENT_HINT =
     (if REENTER_EVENT_HINT = - 1 then Inl RegisterEventTypeError
      else Inr REENTER_EVENT_HINT)"

definition create_reenter_event :: "int \<Rightarrow> ('w \<Rightarrow> exn option \<times> 'w) \<Rightarrow> 'w QEvent" where
  "create_reenter_event reenter_event f = \<lparr>event_type = reenter_event, fn = Some f\<rparr>"

text \<open>
  \<open>Reenter.event\<close>: calls \<open>event.fn()\<close> and returns \<open>False\<close>. Reading \<open>fn\<close> on an event
  without it raises \<open>AttributeError\<close>; an exception of \<open>fn\<close> leaves the handler.
\<close>

definition Reenter_event :: "'w QEvent \<Rightarrow> 'w \<Rightarrow> (exn + bool) \<times> 'w" where
  "Reenter_event event w =
     (case fn event of
        None \<Rightarrow> (Inl AttributeError, w)
      | Some f \<Rightarrow>
          (case f w of
             (Some e, w') \<Rightarrow> (Inl e, w')
           | (None, w') \<Rightarrow> (Inr False, w')))"

section \<open>Emissions\<close>

text \<open>
  What the module reads of the Qt binding, for signal instances of type \<open>'s\<close>: the flags
  \<open>qtpy.PYQT5\<close> and \<open>qtpy.PYSIDE2\<close>, the attribute \<open>.signal\<close> and the \<open>repr()\<close> of a
  PyQt5 bound signal, and PySide2's \<open>==\<close> on signal instances.
\<close>

record 's qtpy =
  PYQT5 :: bool
  PYSIDE2 :: bool
  signal_attr :: "'s \<Rightarrow> string"
  signal_repr :: "'s \<Rightarrow> string"
  signal_eq :: "'s \<Rightarrow> 's \<Rightarrow> bool"

record 's Emission =
  signal :: 's
  args :: "pyvalue list"

definition is_from :: "'s qtpy \<Rightarrow> 's Emission \<Rightarrow> 's \<Rightarrow> exn + bool" where
  "is_from api self sig =
     (if PYQT5 api then
        Inr (signal_attr api (signal self) = signal_attr api sig
             \<and> signal_repr api (signal self) = signal_repr api sig)
      else if PYSIDE2 api then Inr (signal_eq api (signal self) sig)
      else Inl QTrioException)"

text \<open>
  The right-hand side of \<open>==\<close>: an \<open>Emission\<close>, or an object of any other type.
\<close>

datatype 's pyobject = EmissionObject "'s Emission" | OtherObject pyvalue

text \<open>
  \<open>Emission.__eq__\<close>: \<open>False\<close> for another type; otherwise \<open>is_from\<close> on the other's
  signal and, only when that is true, the comparison of the arguments.
\<close>

definition Emission_eq :: "'s qtpy \<Rightarrow> 's Emission \<Rightarrow> 's pyobject \<Rightarrow> exn + bool" where
  "Emission_eq api self other =
     (case other of
        OtherObject _ \<Rightarrow> Inr False
      | EmissionObject other_emission \<Rightarrow>
          (case is_from api self (signal other_emission) of
             Inl e \<Rightarrow> Inl e
           | Inr b \<Rightarrow> if b then Inr (args self = args other_emission) else Inr False))"

subsection \<open>\<open>open_emissions_channel\<close>\<close>











section \<open>The Runner\<close>

text \<open>
  What the Runner reads of the host application, and of a \<open>trio.CancelScope\<close>.
\<close>

record QApplication =
  quitOnLastWindowClosed :: bool

record CancelScope =
  cancel_called :: bool

text \<open>
  What the Runner does to the world, in the order it does it: the calls to the host
  application and to Trio, what it prints, the scoped resources it enters and leaves, and
  each assignment to \<open>self.outcomes\<close> (the value before and the value after).
\<close>

datatype effect =
    NewQApplication
  | SetQuitOnLastWindowClosed bool
  | StartGuestRun
  | Exec
  | Quit
  | Print outcome
  | PrintException exn
  | DoneCallback Outcomes
  | SetOutcomes Outcomes Outcomes
  | EnterCancelScope
  | ExitCancelScope
  | ConnectLastWindowClosed
  | DisconnectLastWindowClosed
  | CallAsyncFn "pyvalue list"

text \<open>
  The attrs class \<open>Runner\<close>. A done callback takes the outcomes and returns, or raises.
  The \<open>reenter\<close> object has no state and is left out.
\<close>

record Runner =
  application :: "QApplication option"
  quit_application :: bool
  done_callback :: "(Outcomes \<Rightarrow> exn option) option"
  outcomes :: Outcomes
  cancel_scope :: "CancelScope option"

text \<open>
  The generated \<open>__init__\<close>: \<open>outcomes\<close> and \<open>cancel_scope\<close> are \<open>init=False\<close>, so a new
  Runner always has \<open>Outcomes()\<close> and no scope. An argument left out (\<open>None\<close> here for
  \<open>quit_application\<close>) takes its default.
\<close>

definition Runner_init ::
  "QApplication option \<Rightarrow> bool option \<Rightarrow> (Outcomes \<Rightarrow> exn option) option \<Rightarrow> Runner" where
  "Runner_init app quit cb =
     \<lparr>application = app,
      quit_application = (case quit of None \<Rightarrow> True | Some b \<Rightarrow> b),
      done_callback = cb,
      outcomes = Outcomes_init,
      cancel_scope = None\<rparr>"

subsection \<open>\<open>Runner.trio_done\<close>\<close>

text \<open>\<open>if self.done_callback is not None: self.done_callback(self.outcomes)\<close>\<close>

definition call_done_callback :: "Runner \<Rightarrow> exn option \<times> effect list" where
  "call_done_callback self =
     (case done_callback self of
        None \<Rightarrow> (None, [])
      | Some cb \<Rightarrow> (cb (outcomes self), [DoneCallback (outcomes self)]))"

text \<open>\<open>if self.quit_application: self.application.quit()\<close>\<close>

definition quit_if_requested :: "Runner \<Rightarrow> exn option \<times> effect list" where
  "quit_if_requested self =
     (if quit_application self then
        (case application self of
           None \<Rightarrow> (Some AttributeError, [])
         | Some _ \<Rightarrow> (None, [Quit]))
      else (None, []))"

text \<open>
  \<open>trio_done\<close> returns the exception that leaves it, if any, the Runner afterwards and
  the effects, in order.
\<close>

definition trio_done :: "Runner \<Rightarrow> outcome \<Rightarrow> exn option \<times> Runner \<times> effect list" where
  "trio_done self run_outcome =
     (let new_outcomes = (outcomes self)\<lparr>trio := Some run_outcome\<rparr>;
          self1 = self\<lparr>outcomes := new_outcomes\<rparr>;
          es1 = [SetOutcomes (outcomes self) new_outcomes, Print run_outcome]
                @ (case run_outcome of
                     Error exc \<Rightarrow> [PrintException exc]
                   | Value _ \<Rightarrow> []);
          (raised, es2) = call_done_callback self1
      in case raised of
           Some e \<Rightarrow> (Some e, self1, es1 @ es2)
         | None \<Rightarrow>
             (let (raised', es3) = quit_if_requested self1
              in (raised', self1, es1 @ es2 @ es3)))"

subsection \<open>\<open>Runner.trio_main\<close>\<close>

text \<open>
  How the awaited call \<open>async_fn(*args)\<close> ends: it returns a value, it raises, or it
  unwinds with Trio's \<open>Cancelled\<close> after the scope around it was cancelled.
\<close>

datatype entry_result = Returns pyvalue | Raises exn | Cancelled

text \<open>
  Modelled from the spec: \<open>qtrio.connection\<close>, whose module is not among the sources.
  It is a scoped resource: entering it connects the handler to the event source, and
  leaving it, on every exit path, disconnects it. Here the source is the application's
  \<open>lastWindowClosed\<close> and the handler is the scope's \<open>cancel\<close>.
\<close>

definition connection_enter :: "effect list" where
  "connection_enter = [ConnectLastWindowClosed]"

definition connection_exit :: "effect list" where
  "connection_exit = [DisconnectLastWindowClosed]"

text \<open>
  \<open>trio_main\<close>. The \<open>with\<close> statements leave in reverse order on every path: first the
  exit stack (which leaves the connection, when one was entered), then the cancel scope.
  The scope swallows the \<open>Cancelled\<close> it caused, and \<open>trio_main\<close> then returns \<open>None\<close>.
\<close>

definition trio_main ::
  "Runner \<Rightarrow> (pyvalue list \<Rightarrow> entry_result) \<Rightarrow> pyvalue list
     \<Rightarrow> (exn + pyvalue) \<times> Runner \<times> effect list" where
  "trio_main self async_fn fn_args =
     (let self1 = self\<lparr>cancel_scope := Some \<lparr>cancel_called = False\<rparr>\<rparr>
      in case application self1 of
           None \<Rightarrow> (Inl AttributeError, self1, [EnterCancelScope, ExitCancelScope])
         | Some app \<Rightarrow>
             (let entered = quitOnLastWindowClosed app;
                  es = [EnterCancelScope]
                       @ (if entered then connection_enter else [])
                       @ [CallAsyncFn fn_args]
                       @ (if entered then connection_exit else [])
                       @ [ExitCancelScope]
              in case async_fn fn_args of
                   Returns v \<Rightarrow> (Inr v, self1, es)
                 | Raises e \<Rightarrow> (Inl e, self1, es)
                 | Cancelled \<Rightarrow>
                     (Inr PyNone, self1\<lparr>cancel_scope := Some \<lparr>cancel_called = True\<rparr>\<rparr>, es)))"

subsection \<open>\<open>Runner.run\<close>\<close>

text \<open>
  \<open>trio.lowlevel.start_guest_run(self.trio_main, async_fn, args, ...,
  done_callback=self.trio_done)\<close>: when the guest finishes, Trio calls the done callback
  once, with the captured outcome of \<open>trio_main\<close>.
\<close>

definition guest_run ::
  "Runner \<Rightarrow> (pyvalue list \<Rightarrow> entry_result) \<Rightarrow> pyvalue list
     \<Rightarrow> exn option \<times> Runner \<times> effect list" where
  "guest_run self async_fn fn_args =
     (let (res, self1, es1) = trio_main self async_fn fn_args;
          run_outcome = (case res of Inl e \<Rightarrow> Error e | Inr v \<Rightarrow> Value v);
          (raised, self2, es2) = trio_done self1 run_outcome
      in (raised, self2, es1 @ es2))"

text \<open>
  What the host loop does during one \<open>exec_()\<close>: whether the guest finishes before the
  loop exits, and the code \<open>exec_()\<close> returns.
\<close>

record Host =
  guest_finishes :: bool
  return_code :: int

text \<open>
  \<open>Runner.run\<close>. The guest only runs inside the host loop, so with
  \<open>execute_application\<close> false nothing of it has run when \<open>run\<close> returns. An exception
  that leaves \<open>trio_done\<close> leaves the host's event handler; the model ends the run
  there, with that exception.
\<close>

definition Runner_run ::
  "Runner \<Rightarrow> (pyvalue list \<Rightarrow> entry_result) \<Rightarrow> pyvalue list \<Rightarrow> bool \<Rightarrow> Host
     \<Rightarrow> (exn + Outcomes) \<times> Runner \<times> effect list" where
  "Runner_run self async_fn fn_args execute_application host =
     (let (self1, es1) =
            (if application self = None then
               (self\<lparr>application := Some \<lparr>quitOnLastWindowClosed = False\<rparr>\<rparr>,
                [NewQApplication, SetQuitOnLastWindowClosed False])
             else (self, []));
          es2 = es1 @ [StartGuestRun]
      in if execute_application then
           (let (raised, self2, es3) =
                  (if guest_finishes host then guest_run self1 async_fn fn_args
                   else (None, self1, []))
            in case raised of
                 Some e \<Rightarrow> (Inl e, self2, es2 @ [Exec] @ es3)
               | None \<Rightarrow>
                   (let new_outcomes =
                          (outcomes self2)\<lparr>qt :=
                             Some (outcome_from_application_return_code (return_code host))\<rparr>;
                        self3 = self2\<lparr>outcomes := new_outcomes\<rparr>
                    in (Inr (outcomes self3), self3,
                        es2 @ [Exec] @ es3 @ [SetOutcomes (outcomes self2) new_outcomes])))
         else (Inr (outcomes self1), self1, es2))"

text \<open>The module's \<open>run\<close>: a new Runner with the done callback, run, its outcomes.\<close>

definition run ::
  "(pyvalue list \<Rightarrow> entry_result) \<Rightarrow> pyvalue list \<Rightarrow> (Outcomes \<Rightarrow> exn option) option \<Rightarrow> Host
     \<Rightarrow> (exn + Outcomes) \<times> effect list" where
  "run async_fn fn_args cb host =
     (let runner = Runner_init None None cb;
          (res, runner1, es) = Runner_run runner async_fn fn_args True host
      in (case res of Inl e \<Rightarrow> Inl e | Inr _ \<Rightarrow> Inr (outcomes runner1), es))"

text \<open>The assignments to \<open>self.outcomes\<close> among the effects, in order.\<close>

fun assignments :: "effect list \<Rightarrow> (Outcomes \<times> Outcomes) list" where
  "assignments [] = []"
| "assignments (SetOutcomes old new # es) = (old, new) # assignments es"
| "assignments (_ # es) = assignments es"

section \<open>Unwrapping\<close>

text \<open>
  C1. When the Trio outcome is an error \<open>e1\<close> and the Qt outcome is an error \<open>e2\<close>,
  \<open>unwrap()\<close> raises \<open>e1\<close>: the guest's failure is the one surfaced, whatever the
  host's failure is.
\<close>

theorem unwrap_trio_error_first:
  "unwrap \<lparr>qt = Some (Error e2), trio = Some (Error e1)\<rparr> = Inl e1"
  by (simp add: unwrap_def)

theorem unwrap_trio_error_first_witness:
  "unwrap \<lparr>qt = Some (Error (ReturnCodeError 3)), trio = Some (Error (UserException ''boom''))\<rparr>
     = Inl (UserException ''boom'')
   \<and> unwrap \<lparr>qt = Some (Error (ReturnCodeError 3)), trio = Some (Error (UserException ''boom''))\<rparr>
     \<noteq> Inl (ReturnCodeError 3)"
  using unwrap_trio_error_first [of "ReturnCodeError 3" "UserException ''boom''"]
  by simp

text \<open>
  C2. When the Trio outcome is a value and the Qt outcome is an error \<open>e\<close>, \<open>unwrap()\<close>
  raises \<open>e\<close> and the guest's value is not returned.
\<close>

theorem unwrap_qt_error_over_trio_value:
  "unwrap \<lparr>qt = Some (Error e), trio = Some (Value v)\<rparr> = Inl e"
  by (simp add: unwrap_def)

theorem unwrap_qt_error_over_trio_value_witness:
  "unwrap \<lparr>qt = Some (Error (ReturnCodeError 1)), trio = Some (Value (PyInt 29))\<rparr>
     = Inl (ReturnCodeError 1)"
  using unwrap_qt_error_over_trio_value [of "ReturnCodeError 1" "PyInt 29"]
  by simp

text \<open>
  C3. With neither outcome set, \<open>unwrap()\<close> raises \<open>NoOutcomesError\<close>; with only the
  Trio outcome set, to a value \<open>v\<close>, it returns \<open>v\<close>.
\<close>

theorem unwrap_none_and_trio_value_only:
  "unwrap \<lparr>qt = None, trio = None\<rparr> = Inl NoOutcomesError
   \<and> unwrap Outcomes_init = Inl NoOutcomesError
   \<and> unwrap \<lparr>qt = None, trio = Some (Value v)\<rparr> = Inr v"
  by (simp add: unwrap_def Outcomes_init_def)

theorem unwrap_none_and_trio_value_only_witness:
  "unwrap Outcomes_init = Inl NoOutcomesError
   \<and> unwrap \<lparr>qt = None, trio = Some (Value (PyStr ''done''))\<rparr> = Inr (PyStr ''done'')"
  using unwrap_none_and_trio_value_only [of "PyStr ''done''"]
  by simp

section \<open>The application's return code\<close>

text \<open>
  C5. For the return code 0 the outcome is a value that unwraps to 0; for every other
  return code \<open>n\<close> it is an error holding \<open>ReturnCodeError(n)\<close>, and unwrapping it
  raises that error.
\<close>

theorem outcome_from_application_return_code_roundtrip:
  "outcome_from_application_return_code 0 = Value (PyInt 0)
   \<and> outcome_unwrap (outcome_from_application_return_code 0) = Inr (PyInt 0)
   \<and> (if n = 0 then outcome_unwrap (outcome_from_application_return_code n) = Inr (PyInt 0)
       else outcome_from_application_return_code n = Error (ReturnCodeError n)
          \<and> outcome_unwrap (outcome_from_application_return_code n) = Inl (ReturnCodeError n))"
  by (simp add: outcome_from_application_return_code_def)

theorem outcome_from_application_return_code_roundtrip_witness:
  "outcome_unwrap (outcome_from_application_return_code 0) = Inr (PyInt 0)
   \<and> outcome_unwrap (outcome_from_application_return_code 2) = Inl (ReturnCodeError 2)
   \<and> outcome_unwrap (outcome_from_application_return_code (- 11)) = Inl (ReturnCodeError (- 11))"
  using outcome_from_application_return_code_roundtrip [of 2]
    outcome_from_application_return_code_roundtrip [of "- 11"]
  by simp

section \<open>The Runner's effects\<close>

subsection \<open>Facts about each method\<close>

lemma trio_done_outcomes:
  "outcomes (fst (snd (trio_done self oc))) = (outcomes self)\<lparr>trio := Some oc\<rparr>"
  by (simp add: trio_done_def Let_def split: prod.splits option.splits)

lemma trio_done_error_prefix:
  "done_callback self = Some cb \<Longrightarrow>
   take 4 (snd (snd (trio_done self (Error e)))) =
     [SetOutcomes (outcomes self) ((outcomes self)\<lparr>trio := Some (Error e)\<rparr>),
      Print (Error e), PrintException e,
      DoneCallback ((outcomes self)\<lparr>trio := Some (Error e)\<rparr>)]"
  by (simp add: trio_done_def call_done_callback_def Let_def split: prod.splits option.splits)

lemma trio_done_error_full:
  "done_callback self = Some cb \<Longrightarrow> cb ((outcomes self)\<lparr>trio := Some (Error e)\<rparr>) = None \<Longrightarrow>
   quit_application self \<Longrightarrow> application self = Some app \<Longrightarrow>
   trio_done self (Error e) =
     (None, self\<lparr>outcomes := (outcomes self)\<lparr>trio := Some (Error e)\<rparr>\<rparr>,
      [SetOutcomes (outcomes self) ((outcomes self)\<lparr>trio := Some (Error e)\<rparr>),
       Print (Error e), PrintException e,
       DoneCallback ((outcomes self)\<lparr>trio := Some (Error e)\<rparr>), Quit])"
  by (simp add: trio_done_def call_done_callback_def quit_if_requested_def Let_def)


lemma trio_main_result:
  "application self = Some app \<Longrightarrow>
   fst (trio_main self async_fn a) =
     (case async_fn a of Returns v \<Rightarrow> Inr v | Raises e \<Rightarrow> Inl e | Cancelled \<Rightarrow> Inr PyNone)"
  by (simp add: trio_main_def Let_def split: entry_result.splits)

lemma trio_main_runner:
  "outcomes (fst (snd (trio_main self async_fn a))) = outcomes self
   \<and> application (fst (snd (trio_main self async_fn a))) = application self
   \<and> done_callback (fst (snd (trio_main self async_fn a))) = done_callback self
   \<and> quit_application (fst (snd (trio_main self async_fn a))) = quit_application self"
  by (simp add: trio_main_def Let_def split: entry_result.splits option.splits)

lemma assignments_append: "assignments (xs @ ys) = assignments xs @ assignments ys"
  by (induction xs rule: assignments.induct) simp_all

lemma trio_main_assignments:
  "assignments (snd (snd (trio_main self async_fn a))) = []"
  by (simp add: trio_main_def connection_enter_def connection_exit_def Let_def split: entry_result.splits option.splits)

lemma trio_done_assignments:
  "assignments (snd (snd (trio_done self oc))) = [(outcomes self, (outcomes self)\<lparr>trio := Some oc\<rparr>)]"
  by (simp add: trio_done_def call_done_callback_def quit_if_requested_def Let_def assignments_append
      split: prod.splits option.splits outcome.splits)

lemma guest_run_facts:
  assumes app: "application self = Some app"
    and cb: "\<forall>o'. (case done_callback self of None \<Rightarrow> None | Some f \<Rightarrow> f o') = None"
  shows "fst (guest_run self async_fn a) = None"
    and "outcomes (fst (snd (guest_run self async_fn a))) =
           (outcomes self)\<lparr>trio := Some (case async_fn a of Returns v \<Rightarrow> Value v
                                          | Raises e \<Rightarrow> Error e | Cancelled \<Rightarrow> Value PyNone)\<rparr>"
    and "assignments (snd (snd (guest_run self async_fn a))) =
           [(outcomes self,
             (outcomes self)\<lparr>trio := Some (case async_fn a of Returns v \<Rightarrow> Value v
                                          | Raises e \<Rightarrow> Error e | Cancelled \<Rightarrow> Value PyNone)\<rparr>)]"
proof -
  obtain res self1 es1 where tm: "trio_main self async_fn a = (res, self1, es1)"
    by (cases "trio_main self async_fn a") auto
  have res: "res = (case async_fn a of Returns v \<Rightarrow> Inr v | Raises e \<Rightarrow> Inl e | Cancelled \<Rightarrow> Inr PyNone)"
    using trio_main_result [OF app, of async_fn a] tm by simp
  have s1: "outcomes self1 = outcomes self" "application self1 = Some app"
    "done_callback self1 = done_callback self"
    using trio_main_runner [of self async_fn a] tm app by simp_all
  have es1: "assignments es1 = []"
    using trio_main_assignments [of self async_fn a] tm by simp
  define oc where "oc = (case res of Inl e \<Rightarrow> Error e | Inr v \<Rightarrow> Value v)"
  have oc: "oc = (case async_fn a of Returns v \<Rightarrow> Value v | Raises e \<Rightarrow> Error e | Cancelled \<Rightarrow> Value PyNone)"
    by (simp add: oc_def res split: entry_result.splits)
  obtain x self2 es2 where td: "trio_done self1 oc = (x, self2, es2)"
    by (cases "trio_done self1 oc") auto
  have gr: "guest_run self async_fn a = (x, self2, es1 @ es2)"
    by (simp add: guest_run_def tm td oc_def [symmetric])
  have x: "x = None"
    using td s1 cb
    by (auto simp: trio_done_def call_done_callback_def quit_if_requested_def Let_def
        split: prod.splits option.splits if_splits)
  have o2: "outcomes self2 = (outcomes self)\<lparr>trio := Some oc\<rparr>"
    using trio_done_outcomes [of self1 oc] td s1 by simp
  have es2: "assignments es2 = [(outcomes self, (outcomes self)\<lparr>trio := Some oc\<rparr>)]"
    using trio_done_assignments [of self1 oc] td s1 by simp
  show "fst (guest_run self async_fn a) = None" by (simp add: gr x)
  show "outcomes (fst (snd (guest_run self async_fn a))) =
           (outcomes self)\<lparr>trio := Some (case async_fn a of Returns v \<Rightarrow> Value v
                                          | Raises e \<Rightarrow> Error e | Cancelled \<Rightarrow> Value PyNone)\<rparr>"
    by (simp add: gr o2 oc)
  show "assignments (snd (snd (guest_run self async_fn a))) =
           [(outcomes self,
             (outcomes self)\<lparr>trio := Some (case async_fn a of Returns v \<Rightarrow> Value v
                                          | Raises e \<Rightarrow> Error e | Cancelled \<Rightarrow> Value PyNone)\<rparr>)]"
    by (simp add: gr assignments_append es1 es2 oc)
qed

lemma Runner_run_exec:
  assumes cb: "\<forall>o'. (case done_callback self of None \<Rightarrow> None | Some f \<Rightarrow> f o') = None"
  shows "fst (Runner_run self async_fn a True host) =
       Inr ((if guest_finishes host
               then (outcomes self)\<lparr>trio := Some (case async_fn a of Returns v \<Rightarrow> Value v
                                          | Raises e \<Rightarrow> Error e | Cancelled \<Rightarrow> Value PyNone)\<rparr>
               else outcomes self)\<lparr>qt := Some (outcome_from_application_return_code (return_code host))\<rparr>)
   \<and> outcomes (fst (snd (Runner_run self async_fn a True host))) =
       (if guest_finishes host
               then (outcomes self)\<lparr>trio := Some (case async_fn a of Returns v \<Rightarrow> Value v
                                          | Raises e \<Rightarrow> Error e | Cancelled \<Rightarrow> Value PyNone)\<rparr>
               else outcomes self)\<lparr>qt := Some (outcome_from_application_return_code (return_code host))\<rparr>
   \<and> assignments (snd (snd (Runner_run self async_fn a True host))) =
       (if guest_finishes host
        then [(outcomes self, (outcomes self)\<lparr>trio := Some (case async_fn a of Returns v \<Rightarrow> Value v
                                          | Raises e \<Rightarrow> Error e | Cancelled \<Rightarrow> Value PyNone)\<rparr>)]
        else [])
       @ [((if guest_finishes host
               then (outcomes self)\<lparr>trio := Some (case async_fn a of Returns v \<Rightarrow> Value v
                                          | Raises e \<Rightarrow> Error e | Cancelled \<Rightarrow> Value PyNone)\<rparr>
               else outcomes self),
           (if guest_finishes host
               then (outcomes self)\<lparr>trio := Some (case async_fn a of Returns v \<Rightarrow> Value v
                                          | Raises e \<Rightarrow> Error e | Cancelled \<Rightarrow> Value PyNone)\<rparr>
               else outcomes self)\<lparr>qt := Some (outcome_from_application_return_code (return_code host))\<rparr>)]"
proof -
  define self1 where "self1 = (if application self = None
      then self\<lparr>application := Some \<lparr>quitOnLastWindowClosed = False\<rparr>\<rparr> else self)"
  obtain app where app: "application self1 = Some app"
    by (cases "application self") (auto simp: self1_def)
  have s1: "outcomes self1 = outcomes self" "done_callback self1 = done_callback self"
    by (simp_all add: self1_def)
  have cb1: "\<forall>o'. (case done_callback self1 of None \<Rightarrow> None | Some f \<Rightarrow> f o') = None"
    using cb s1 by simp
  note gf = guest_run_facts [OF app cb1, of async_fn a]
  obtain x self2 es3 where gr: "guest_run self1 async_fn a = (x, self2, es3)"
    by (cases "guest_run self1 async_fn a") auto
  have x: "x = None" using gf(1) gr by simp
  have o2: "outcomes self2 = (outcomes self)\<lparr>trio := Some (case async_fn a of Returns v \<Rightarrow> Value v
                                          | Raises e \<Rightarrow> Error e | Cancelled \<Rightarrow> Value PyNone)\<rparr>"
    using gf(2) gr s1 by simp
  have a3: "assignments es3 = [(outcomes self, (outcomes self)\<lparr>trio := Some (case async_fn a of Returns v \<Rightarrow> Value v
                                          | Raises e \<Rightarrow> Error e | Cancelled \<Rightarrow> Value PyNone)\<rparr>)]"
    using gf(3) gr s1 by simp
  define es1 where "es1 = (if application self = None
      then [NewQApplication, SetQuitOnLastWindowClosed False] else [])"
  have rr: "Runner_run self async_fn a True host =
     (let (raised, self2, es3) =
            (if guest_finishes host then guest_run self1 async_fn a else (None, self1, []))
      in case raised of
           Some e \<Rightarrow> (Inl e, self2, (es1 @ [StartGuestRun]) @ [Exec] @ es3)
         | None \<Rightarrow>
             (let new_outcomes =
                    (outcomes self2)\<lparr>qt :=
                       Some (outcome_from_application_return_code (return_code host))\<rparr>;
                  self3 = self2\<lparr>outcomes := new_outcomes\<rparr>
              in (Inr (outcomes self3), self3,
                  (es1 @ [StartGuestRun]) @ [Exec] @ es3
                  @ [SetOutcomes (outcomes self2) new_outcomes])))"
    by (cases "application self")
       (simp_all add: Runner_run_def self1_def es1_def Let_def split: prod.splits option.splits)
  have a1: "assignments es1 = []"
    by (simp add: es1_def)
  show ?thesis
  proof (cases "guest_finishes host")
    case True
    then show ?thesis
      unfolding rr using gr x o2 a3
      by (simp add: Let_def assignments_append a1)
  next
    case False
    then show ?thesis
      unfolding rr using s1
      by (simp add: Let_def assignments_append a1)
  qed
qed

lemma Runner_run_no_exec:
  "fst (Runner_run self async_fn a False host) = Inr (outcomes self)
   \<and> outcomes (fst (snd (Runner_run self async_fn a False host))) = outcomes self
   \<and> assignments (snd (snd (Runner_run self async_fn a False host))) = []"
  by (cases "application self") (simp_all add: Runner_run_def Let_def assignments_append)

subsection \<open>The guest finishes with an error\<close>

text \<open>
  C4. When the guest finishes with an error \<open>e\<close> and a done callback is set,
  \<open>trio_done\<close> first records \<open>Error e\<close> as the Trio outcome, then prints the outcome and
  the exception with its traceback (inside \<open>trio_done\<close>, so whether or not the outcomes
  are ever unwrapped), then calls the done callback once, with the outcomes just recorded.
  \<open>quit_application\<close> is true by default, and with it true and the callback returning,
  the one call of \<open>application.quit()\<close> comes last, after the callback.
\<close>

theorem trio_done_error_order:
  assumes "done_callback self = Some cb"
  shows "outcomes (fst (snd (trio_done self (Error e)))) = (outcomes self)\<lparr>trio := Some (Error e)\<rparr>
   \<and> take 4 (snd (snd (trio_done self (Error e)))) =
       [SetOutcomes (outcomes self) ((outcomes self)\<lparr>trio := Some (Error e)\<rparr>),
        Print (Error e), PrintException e,
        DoneCallback ((outcomes self)\<lparr>trio := Some (Error e)\<rparr>)]
   \<and> quit_application (Runner_init app None (Some cb))
   \<and> (cb ((outcomes self)\<lparr>trio := Some (Error e)\<rparr>) = None \<and> quit_application self
        \<and> application self = Some qapp \<longrightarrow>
        trio_done self (Error e) =
          (None, self\<lparr>outcomes := (outcomes self)\<lparr>trio := Some (Error e)\<rparr>\<rparr>,
           [SetOutcomes (outcomes self) ((outcomes self)\<lparr>trio := Some (Error e)\<rparr>),
            Print (Error e), PrintException e,
            DoneCallback ((outcomes self)\<lparr>trio := Some (Error e)\<rparr>), Quit]))"
  using assms trio_done_outcomes [of self "Error e"] trio_done_error_prefix [of self cb e]
    trio_done_error_full [of self cb e qapp]
  by (simp add: Runner_init_def)

theorem trio_done_error_order_witness:
  "trio_done (Runner_init (Some \<lparr>quitOnLastWindowClosed = False\<rparr>) None (Some (\<lambda>_. None)))
     (Error (UserException ''boom'')) =
   (None,
    \<lparr>application = Some \<lparr>quitOnLastWindowClosed = False\<rparr>, quit_application = True,
     done_callback = Some (\<lambda>_. None),
     outcomes = \<lparr>qt = None, trio = Some (Error (UserException ''boom''))\<rparr>,
     cancel_scope = None\<rparr>,
    [SetOutcomes \<lparr>qt = None, trio = None\<rparr>
       \<lparr>qt = None, trio = Some (Error (UserException ''boom''))\<rparr>,
     Print (Error (UserException ''boom'')), PrintException (UserException ''boom''),
     DoneCallback \<lparr>qt = None, trio = Some (Error (UserException ''boom''))\<rparr>, Quit])"
  using trio_done_error_order
    [of "Runner_init (Some \<lparr>quitOnLastWindowClosed = False\<rparr>) None (Some (\<lambda>_. None))"
        "\<lambda>_. None" "UserException ''boom''" None "\<lparr>quitOnLastWindowClosed = False\<rparr>"]
  by (simp add: Runner_init_def Outcomes_init_def)

subsection \<open>The cancel scope around the entry function\<close>



subsection \<open>Each outcome is set once\<close>

text \<open>
  C9. A new Runner has both outcomes unset. In one \<open>run()\<close> of it, with a done callback
  that returns, \<open>self.outcomes\<close> is assigned by \<open>trio_done\<close> once if the guest finishes
  while the host loop runs, setting \<open>trio\<close> from \<open>None\<close> with \<open>qt\<close> still \<open>None\<close>, and then
  by \<open>run\<close> once when \<open>exec_()\<close> has returned, setting \<open>qt\<close> from \<open>None\<close> with \<open>trio\<close> as
  \<open>trio_done\<close> left it. With \<open>execute_application\<close> false \<open>run\<close> assigns nothing. On any
  Runner \<open>trio_done\<close> leaves \<open>qt\<close> as it was.
\<close>

theorem outcomes_each_set_once:
  assumes "\<forall>o'. (case cb of None \<Rightarrow> None | Some f \<Rightarrow> f o') = None"
  shows "outcomes (Runner_init app quit cb) = \<lparr>qt = None, trio = None\<rparr>
   \<and> (let oc = (case async_fn a of Returns v \<Rightarrow> Value v | Raises e \<Rightarrow> Error e
                 | Cancelled \<Rightarrow> Value PyNone);
           g = (if guest_finishes host then Some oc else None);
           rc = Some (outcome_from_application_return_code (return_code host))
       in fst (Runner_run (Runner_init app quit cb) async_fn a True host)
            = Inr \<lparr>qt = rc, trio = g\<rparr>
        \<and> outcomes (fst (snd (Runner_run (Runner_init app quit cb) async_fn a True host)))
            = \<lparr>qt = rc, trio = g\<rparr>
        \<and> assignments (snd (snd (Runner_run (Runner_init app quit cb) async_fn a True host)))
            = (if guest_finishes host
               then [(\<lparr>qt = None, trio = None\<rparr>, \<lparr>qt = None, trio = Some oc\<rparr>)] else [])
              @ [(\<lparr>qt = None, trio = g\<rparr>, \<lparr>qt = rc, trio = g\<rparr>)])
   \<and> fst (Runner_run (Runner_init app quit cb) async_fn a False host)
        = Inr \<lparr>qt = None, trio = None\<rparr>
   \<and> assignments (snd (snd (Runner_run (Runner_init app quit cb) async_fn a False host))) = []
   \<and> qt (outcomes (fst (snd (trio_done self run_outcome)))) = qt (outcomes self)
   \<and> trio (outcomes (fst (snd (trio_done self run_outcome)))) = Some run_outcome"
proof -
  let ?r = "Runner_init app quit cb"
  have o: "outcomes ?r = \<lparr>qt = None, trio = None\<rparr>"
    by (simp add: Runner_init_def Outcomes_init_def)
  have cb: "\<forall>o'. (case done_callback ?r of None \<Rightarrow> None | Some f \<Rightarrow> f o') = None"
    using assms by (simp add: Runner_init_def)
  note ex = Runner_run_exec [OF cb, of async_fn a host]
  note nx = Runner_run_no_exec [of ?r async_fn a host]
  have td: "outcomes (fst (snd (trio_done self run_outcome))) = (outcomes self)\<lparr>trio := Some run_outcome\<rparr>"
    by (rule trio_done_outcomes)
  have p1: "fst (Runner_run ?r async_fn a True host) =
      Inr \<lparr>qt = Some (outcome_from_application_return_code (return_code host)),
           trio = (if guest_finishes host
                   then Some (case async_fn a of Returns v \<Rightarrow> Value v | Raises e \<Rightarrow> Error e
                              | Cancelled \<Rightarrow> Value PyNone) else None)\<rparr>"
    using ex o by (cases "guest_finishes host") (simp_all add: Let_def)
  have p2: "outcomes (fst (snd (Runner_run ?r async_fn a True host))) =
      \<lparr>qt = Some (outcome_from_application_return_code (return_code host)),
       trio = (if guest_finishes host
                   then Some (case async_fn a of Returns v \<Rightarrow> Value v | Raises e \<Rightarrow> Error e
                              | Cancelled \<Rightarrow> Value PyNone) else None)\<rparr>"
    using ex o by (cases "guest_finishes host") (simp_all add: Let_def)
  have p3: "assignments (snd (snd (Runner_run ?r async_fn a True host))) =
      (if guest_finishes host
       then [(\<lparr>qt = None, trio = None\<rparr>,
              \<lparr>qt = None, trio = Some (case async_fn a of Returns v \<Rightarrow> Value v | Raises e \<Rightarrow> Error e
                              | Cancelled \<Rightarrow> Value PyNone)\<rparr>)] else [])
      @ [(\<lparr>qt = None, trio = (if guest_finishes host
                   then Some (case async_fn a of Returns v \<Rightarrow> Value v | Raises e \<Rightarrow> Error e
                              | Cancelled \<Rightarrow> Value PyNone) else None)\<rparr>,
          \<lparr>qt = Some (outcome_from_application_return_code (return_code host)),
           trio = (if guest_finishes host
                   then Some (case async_fn a of Returns v \<Rightarrow> Value v | Raises e \<Rightarrow> Error e
                              | Cancelled \<Rightarrow> Value PyNone) else None)\<rparr>)]"
    using ex o by (cases "guest_finishes host") (simp_all add: Let_def)
  have p4: "fst (Runner_run ?r async_fn a False host) = Inr \<lparr>qt = None, trio = None\<rparr>"
    using nx o by simp
  have p5: "assignments (snd (snd (Runner_run ?r async_fn a False host))) = []"
    using nx by simp
  show ?thesis
    unfolding Let_def using o p1 p2 p3 p4 p5 td by simp
qed

theorem outcomes_each_set_once_witness:
  "assignments (snd (snd (Runner_run (Runner_init None None (Some (\<lambda>_. None)))
       (\<lambda>_. Raises (UserException ''boom'')) []
       True \<lparr>guest_finishes = True, return_code = 0\<rparr>))) =
     [(\<lparr>qt = None, trio = None\<rparr>,
       \<lparr>qt = None, trio = Some (Error (UserException ''boom''))\<rparr>),
      (\<lparr>qt = None, trio = Some (Error (UserException ''boom''))\<rparr>,
       \<lparr>qt = Some (Value (PyInt 0)), trio = Some (Error (UserException ''boom''))\<rparr>)]
   \<and> assignments (snd (snd (Runner_run (Runner_init None None (Some (\<lambda>_. None)))
       (\<lambda>_. Raises (UserException ''boom'')) []
       True \<lparr>guest_finishes = False, return_code = 3\<rparr>))) =
     [(\<lparr>qt = None, trio = None\<rparr>,
       \<lparr>qt = Some (Error (ReturnCodeError 3)), trio = None\<rparr>)]"
  using outcomes_each_set_once
    [of "Some (\<lambda>_. None)" None None "\<lambda>_. Raises (UserException ''boom'')" "[]"
        "\<lparr>guest_finishes = True, return_code = 0\<rparr>"]
    outcomes_each_set_once
    [of "Some (\<lambda>_. None)" None None "\<lambda>_. Raises (UserException ''boom'')" "[]"
        "\<lparr>guest_finishes = False, return_code = 3\<rparr>"]
  by (simp add: Let_def outcome_from_application_return_code_def)

section \<open>Reentering the host loop\<close>

text \<open>
  C7. For every reenter event, made by \<open>create_reenter_event\<close> from a callable \<open>f\<close>,
  the handler \<open>Reenter.event\<close> leaves the program in the state one call of \<open>f\<close> leaves
  it in, and when that call returns, the handler returns \<open>False\<close> to the host.
\<close>

theorem Reenter_event_calls_fn_once:
  "snd (Reenter_event (create_reenter_event t f) w) = snd (f w)
   \<and> (fst (f w) = None \<longrightarrow>
        Reenter_event (create_reenter_event t f) w = (Inr False, snd (f w)))"
  by (auto simp: Reenter_event_def create_reenter_event_def split: prod.splits option.splits)

theorem Reenter_event_calls_fn_once_witness:
  "Reenter_event (create_reenter_event 1000 (\<lambda>n::nat. (None, Suc n))) 0 = (Inr False, 1)"
  using Reenter_event_calls_fn_once [of 1000 "\<lambda>n::nat. (None, Suc n)" 0]
  by simp

section \<open>Equality of emissions\<close>

text \<open>
  C10. Comparing an \<open>Emission\<close> with an object of another type returns \<open>False\<close> and
  never raises, under every binding. Comparing it with an \<open>Emission\<close> returns \<open>True\<close>
  exactly when \<open>is_from\<close> returns \<open>True\<close> for the other's signal and the arguments are
  equal; under PyQt5 and under PySide2 \<open>is_from\<close> returns, and the comparison returns
  the conjunction.
\<close>

theorem Emission_eq_guarded:
  "Emission_eq api e (OtherObject x) = Inr False
   \<and> (Emission_eq api e (EmissionObject e') = Inr True
        \<longleftrightarrow> is_from api e (signal e') = Inr True \<and> args e = args e')
   \<and> (PYQT5 api \<or> PYSIDE2 api \<longrightarrow>
        (\<exists>b. is_from api e (signal e') = Inr b
             \<and> Emission_eq api e (EmissionObject e') = Inr (b \<and> args e = args e')))"
  by (auto simp: Emission_eq_def is_from_def split: sum.splits)

theorem Emission_eq_guarded_witness:
  "Emission_eq
     \<lparr>PYQT5 = False, PYSIDE2 = True, signal_attr = (\<lambda>_. []), signal_repr = (\<lambda>_. []),
      signal_eq = (=)\<rparr>
     \<lparr>signal = (4::nat), args = [PyInt 1, PyInt 2]\<rparr>
     (EmissionObject \<lparr>signal = 4, args = [PyInt 1, PyInt 2]\<rparr>) = Inr True
   \<and> Emission_eq
     \<lparr>PYQT5 = False, PYSIDE2 = True, signal_attr = (\<lambda>_. []), signal_repr = (\<lambda>_. []),
      signal_eq = (=)\<rparr>
     \<lparr>signal = (4::nat), args = [PyInt 1, PyInt 2]\<rparr>
     (OtherObject (PyTuple [PyInt 1, PyInt 2])) = Inr False"
  using Emission_eq_guarded
    [of "\<lparr>PYQT5 = False, PYSIDE2 = True, signal_attr = (\<lambda>_. []), signal_repr = (\<lambda>_. []),
          signal_eq = (=)\<rparr>"
        "\<lparr>signal = (4::nat), args = [PyInt 1, PyInt 2]\<rparr>"
        "PyTuple [PyInt 1, PyInt 2]"
        "\<lparr>signal = 4, args = [PyInt 1, PyInt 2]\<rparr>"]
  by (simp add: is_from_def)

section \<open>Closing a subscription\<close>





end
